theory Spec2Isabelle
  imports Main
begin

section \<open>Python values and the string operations the script uses\<close>

text \<open>
  The script \<^verbatim>\<open>saphana_create_snapshot.py\<close> handles three kinds of Python values:
  \<^verbatim>\<open>None\<close>, \<^verbatim>\<open>str\<close> and \<^verbatim>\<open>int\<close> (column values of database rows, dictionary
  entries of the array's replies). Strings are ASCII character lists.
\<close>

datatype pyval = PNone | PStr string | PInt int

datatype exn =
    TypeError | IndexError | AttributeError | NameError | UnboundLocalError
  | DatabaseError | SSHException | PureError

text \<open>\<^verbatim>\<open>str(x)\<close>: decimal digits for an int, the text \<^verbatim>\<open>None\<close> for None.\<close>

fun nat_digits :: "nat \<Rightarrow> string" where
  "nat_digits n =
     (if n < 10 then [''0123456789'' ! n]
      else nat_digits (n div 10) @ [''0123456789'' ! (n mod 10)])"

declare nat_digits.simps [simp del]

fun py_str :: "pyval \<Rightarrow> string" where
  "py_str PNone = ''None''"
| "py_str (PStr s) = s"
| "py_str (PInt i) = (if i < 0 then ''-'' @ nat_digits (nat (- i)) else nat_digits (nat i))"

text \<open>Unary plus: defined on numbers only; on a \<^verbatim>\<open>str\<close> or on None it raises TypeError.\<close>

fun py_pos :: "pyval \<Rightarrow> exn + pyval" where
  "py_pos (PInt i) = Inr (PInt i)"
| "py_pos (PStr s) = Inl TypeError"
| "py_pos PNone = Inl TypeError"

text \<open>Binary plus: concatenation of two strings, sum of two ints, TypeError otherwise.\<close>

fun py_add :: "pyval \<Rightarrow> pyval \<Rightarrow> exn + pyval" where
  "py_add (PStr a) (PStr b) = Inr (PStr (a @ b))"
| "py_add (PInt a) (PInt b) = Inr (PInt (a + b))"
| "py_add _ _ = Inl TypeError"

text \<open>A left-associated chain \<^verbatim>\<open>e + v\<close> whose left operand may already have raised.\<close>

definition then_add :: "exn + pyval \<Rightarrow> pyval \<Rightarrow> exn + pyval" where
  "then_add r v = (case r of Inl e \<Rightarrow> Inl e | Inr a \<Rightarrow> py_add a v)"

text \<open>\<^verbatim>\<open>x + s\<close> and \<^verbatim>\<open>s + x\<close> where \<^verbatim>\<open>s\<close> is a \<^verbatim>\<open>str\<close>: \<^verbatim>\<open>x\<close> must be a \<^verbatim>\<open>str\<close> too.\<close>

fun py_add_str :: "pyval \<Rightarrow> string \<Rightarrow> exn + string" where
  "py_add_str (PStr a) b = Inr (a @ b)"
| "py_add_str _ b = Inl TypeError"

fun py_str_add :: "string \<Rightarrow> pyval \<Rightarrow> exn + string" where
  "py_str_add a (PStr b) = Inr (a @ b)"
| "py_str_add a _ = Inl TypeError"

text \<open>\<^verbatim>\<open>s.lower()\<close> on ASCII text.\<close>

definition lower_char :: "char \<Rightarrow> char" where
  "lower_char c =
     (let n = (of_char c :: nat) in if 65 \<le> n \<and> n \<le> 90 then char_of (n + 32) else c)"

definition py_lower :: "string \<Rightarrow> string" where
  "py_lower s = map lower_char s"

text \<open>\<^verbatim>\<open>a in b\<close> for two strings: \<^verbatim>\<open>a\<close> occurs in \<^verbatim>\<open>b\<close> as a contiguous substring.\<close>

fun starts_with :: "string \<Rightarrow> string \<Rightarrow> bool" where
  "starts_with [] ys = True"
| "starts_with (x # xs) [] = False"
| "starts_with (x # xs) (y # ys) = (x = y \<and> starts_with xs ys)"

fun py_in :: "string \<Rightarrow> string \<Rightarrow> bool" where
  "py_in xs [] = (xs = [])"
| "py_in xs (y # ys) = (starts_with xs (y # ys) \<or> py_in xs ys)"

text \<open>\<^verbatim>\<open>xs[i]\<close> with a non-negative literal index: IndexError out of range.\<close>

definition index :: "'a list \<Rightarrow> nat \<Rightarrow> exn + 'a" where
  "index xs i = (if i < length xs then Inr (xs ! i) else Inl IndexError)"

text \<open>\<^verbatim>\<open>mount_point.replace('/', "")\<close>: only a \<^verbatim>\<open>str\<close> has the method.\<close>

definition sanitize :: "string \<Rightarrow> string" where
  "sanitize m = filter (\<lambda>c. c \<noteq> CHR ''/'') m"

fun py_replace_slash :: "pyval \<Rightarrow> exn + string" where
  "py_replace_slash (PStr m) = Inr (sanitize m)"
| "py_replace_slash _ = Inl AttributeError"

text \<open>A dictionary of the array's REST replies, and \<^verbatim>\<open>d.get(k)\<close> (None when absent).\<close>

type_synonym dict = "(string \<times> pyval) list"

definition dict_get :: "dict \<Rightarrow> string \<Rightarrow> pyval" where
  "dict_get d k = (case map_of d k of None \<Rightarrow> PNone | Some v \<Rightarrow> v)"

section \<open>The outside world: events, replies and the program state\<close>

text \<open>A database row is the list of its \<^verbatim>\<open>column_values\<close>.\<close>

type_synonym row = "pyval list"

datatype db_reply = ExecuteRaises | NoResultSet | ResultRows "row list"

text \<open>
  Everything the script does to the outside is recorded, in order: opening a database
  connection (address, port), executing a statement on it, opening an SSH session,
  running a remote command, logging in to the array, listing its volumes, requesting a
  snapshot (volume name, suffix), and printing a line.
\<close>

datatype event =
    DbConnect string string
  | DbExecute string string string
  | SshConnect string
  | SshExec string string
  | ArrayLogin
  | ListVolumes
  | CreateSnapshot pyval string
  | Print string

text \<open>
  The replies of the three external systems and of the clock are parameters. Each may
  depend on everything that happened before (the trace so far). The text functions of the
  Python library that \<^verbatim>\<open>get_volume_serialno\<close> applies to command output (\<^verbatim>\<open>str\<close> of a
  list of lines, \<^verbatim>\<open>re.search(p, s).group()\<close>, \<^verbatim>\<open>re.split\<close>) are parameters as well.
\<close>

record world =
  now_dt_string :: "event list \<Rightarrow> string"
  db_connect :: "event list \<Rightarrow> string \<Rightarrow> string \<Rightarrow> bool"
  db_execute :: "event list \<Rightarrow> string \<Rightarrow> string \<Rightarrow> string \<Rightarrow> db_reply"
  ssh_connect :: "event list \<Rightarrow> string \<Rightarrow> bool"
  ssh_exec :: "event list \<Rightarrow> string \<Rightarrow> string \<Rightarrow> string list option"
  array_login :: "event list \<Rightarrow> bool"
  list_volumes :: "event list \<Rightarrow> dict list option"
  create_snapshot :: "event list \<Rightarrow> pyval \<Rightarrow> string \<Rightarrow> dict option"
  str_of_lines :: "string list \<Rightarrow> string"
  re_search :: "string \<Rightarrow> string \<Rightarrow> string option"
  re_split :: "string \<Rightarrow> string \<Rightarrow> string list"

text \<open>The mutable part: the trace, and the global \<^verbatim>\<open>hostaddress\<close> (reassigned at line 205).\<close>

record state =
  trace :: "event list"
  hostaddress :: string

type_synonym 'a prog = "state \<Rightarrow> (exn + 'a) \<times> state"

definition ret :: "'a \<Rightarrow> 'a prog" where
  "ret x s = (Inr x, s)"

definition raise :: "exn \<Rightarrow> 'a prog" where
  "raise e s = (Inl e, s)"

definition lift :: "exn + 'a \<Rightarrow> 'a prog" where
  "lift r s = (r, s)"

definition andthen :: "'a prog \<Rightarrow> ('a \<Rightarrow> 'b prog) \<Rightarrow> 'b prog" where
  "andthen m f s = (case m s of (Inl e, s1) \<Rightarrow> (Inl e, s1) | (Inr x, s1) \<Rightarrow> f x s1)"

definition emit :: "event \<Rightarrow> state \<Rightarrow> state" where
  "emit e s = s\<lparr>trace := trace s @ [e]\<rparr>"

definition py_print :: "string \<Rightarrow> unit prog" where
  "py_print msg s = (Inr (), emit (Print msg) s)"

text \<open>The events added between two states of one run.\<close>

definition new_events :: "state \<Rightarrow> state \<Rightarrow> event list" where
  "new_events s s' = drop (length (trace s)) (trace s')"

section \<open>Module-level configuration (lines 50 to 61)\<close>

definition domainname :: string where
  "domainname = ''puredoes.local''"

definition instancenumber :: string where
  "instancenumber = ''00''"

definition port :: string where
  "port = ''15''"

definition initial_state :: state where
  "initial_state = \<lparr>trace = [], hostaddress = ''SHN2.puredoes.local''\<rparr>"

section \<open>Database command adapter (lines 71 to 101)\<close>

text \<open>
  \<^verbatim>\<open>execute_saphana_command\<close>: the test \<^verbatim>\<open>connection.isconnected\<close> reads a bound method
  without calling it, so it is always true and the \<^verbatim>\<open>else\<close> branch of line 87 is never
  taken. The function returns the rows when the statement has a result set, and None
  otherwise.
\<close>

definition execute_saphana_command :: "world \<Rightarrow> string \<Rightarrow> pyval \<Rightarrow> (row list option) prog" where
  "execute_saphana_command w command port_number s =
     (let portvalue = ''3'' @ py_str (PStr instancenumber) @ py_str port_number;
          s1 = emit (DbConnect (hostaddress s) portvalue) s
      in if \<not> db_connect w (trace s) (hostaddress s) portvalue then (Inl DatabaseError, s1)
         else (case db_execute w (trace s1) (hostaddress s) portvalue command of
                 ExecuteRaises \<Rightarrow>
                   (Inl DatabaseError, emit (DbExecute (hostaddress s) portvalue command) s1)
               | NoResultSet \<Rightarrow>
                   (Inr None, emit (DbExecute (hostaddress s) portvalue command) s1)
               | ResultRows responses \<Rightarrow>
                   (Inr (Some responses), emit (DbExecute (hostaddress s) portvalue command) s1)))"

definition hdbsqlCheckSAPHANASystemType :: string where
  "hdbsqlCheckSAPHANASystemType =
     ''SELECT VALUE FROM M_INIFILE_CONTENTS WHERE         FILE_NAME = 'global.ini' AND SECTION = 'multidb' AND KEY = 'mode'' @ [CHR 0x27]"

text \<open>
  \<^verbatim>\<open>"multidb" in systemtype[0]\<close>: None is not subscriptable (TypeError), an empty
  list has no first row (IndexError), and a row contains a value when one of its columns
  equals it.
\<close>

definition first_row :: "row list option \<Rightarrow> exn + row" where
  "first_row r = (case r of None \<Rightarrow> Inl TypeError | Some [] \<Rightarrow> Inl IndexError | Some (x # _) \<Rightarrow> Inr x)"

definition check_saphana_system_type :: "world \<Rightarrow> bool prog" where
  "check_saphana_system_type w =
     andthen (execute_saphana_command w hdbsqlCheckSAPHANASystemType (PStr port)) (\<lambda>systemtype.
     andthen (lift (first_row systemtype)) (\<lambda>r0.
     if PStr ''multidb'' \<in> set r0 then ret True else ret False))"

section \<open>Remote execution adapter (lines 103 to 145)\<close>

definition prepare_ssh_connection :: "world \<Rightarrow> string \<Rightarrow> unit prog" where
  "prepare_ssh_connection w host s =
     (if ssh_connect w (trace s) host then (Inr (), emit (SshConnect host) s)
      else (Inl SSHException, emit (SshConnect host) s))"

text \<open>\<^verbatim>\<open>sshclient.exec_command(c)\<close> followed by \<^verbatim>\<open>stdout.readlines()\<close>.\<close>

definition exec_command :: "world \<Rightarrow> string \<Rightarrow> string \<Rightarrow> (string list) prog" where
  "exec_command w host cmd s =
     (case ssh_exec w (trace s) host cmd of
        None \<Rightarrow> (Inl SSHException, emit (SshExec host cmd) s)
      | Some out \<Rightarrow> (Inr out, emit (SshExec host cmd) s))"

definition device_pattern :: string where
  "device_pattern = ''([^[']'' @ [CHR 0x5C] @ ''S+)''"

definition backslash_pattern :: string where
  "backslash_pattern = [CHR 0x5C, CHR 0x5C]"

definition get_volume_serialno :: "world \<Rightarrow> string \<Rightarrow> pyval \<Rightarrow> string prog" where
  "get_volume_serialno w host datavolume_mount =
     andthen (prepare_ssh_connection w host) (\<lambda>_.
     andthen (exec_command w host (''df -h | grep '' @ py_str datavolume_mount)) (\<lambda>opt.
     (case re_search w device_pattern (str_of_lines w opt) of
        None \<Rightarrow> raise AttributeError
      | Some parsedvolume_location \<Rightarrow>
          andthen (exec_command w host
                     (''udevadm info --query=all --name='' @ parsedvolume_location
                        @ '' | grep DM_SERIAL'')) (\<lambda>opt2.
          (case re_split w ''='' (str_of_lines w opt2) of
             _ # volumeserial_toparse # _ \<Rightarrow>
               (case re_split w backslash_pattern volumeserial_toparse of
                  volumeserial # _ \<Rightarrow> ret volumeserial
                | [] \<Rightarrow> raise IndexError)
           | _ \<Rightarrow> raise IndexError)))))"

definition freeze_command :: "string \<Rightarrow> string" where
  "freeze_command datavolume_mount = ''/sbin/fsfreeze --freeze'' @ datavolume_mount"

definition unfreeze_command :: "string \<Rightarrow> string" where
  "unfreeze_command datavolume_mount = ''/sbin/fsfreeze --unfreeze'' @ datavolume_mount"

definition freeze_filesystem :: "world \<Rightarrow> string \<Rightarrow> pyval \<Rightarrow> unit prog" where
  "freeze_filesystem w host datavolume_mount =
     andthen (prepare_ssh_connection w host) (\<lambda>_.
     andthen (exec_command w host (freeze_command (py_str datavolume_mount))) (\<lambda>opt.
     ret ()))"

definition unfreeze_filesystem :: "world \<Rightarrow> string \<Rightarrow> pyval \<Rightarrow> unit prog" where
  "unfreeze_filesystem w host datavolume_mount =
     andthen (prepare_ssh_connection w host) (\<lambda>_.
     andthen (exec_command w host (unfreeze_command (py_str datavolume_mount))) (\<lambda>opt.
     ret ()))"

section \<open>Storage snapshot adapter (lines 147 to 157)\<close>

definition array_connect :: "world \<Rightarrow> unit prog" where
  "array_connect w s =
     (if array_login w (trace s) then (Inr (), emit ArrayLogin s)
      else (Inl PureError, emit ArrayLogin s))"

definition array_list_volumes :: "world \<Rightarrow> (dict list) prog" where
  "array_list_volumes w s =
     (case list_volumes w (trace s) of
        None \<Rightarrow> (Inl PureError, emit ListVolumes s)
      | Some volumes \<Rightarrow> (Inr volumes, emit ListVolumes s))"

definition array_create_snapshot :: "world \<Rightarrow> pyval \<Rightarrow> string \<Rightarrow> dict prog" where
  "array_create_snapshot w volname snapshot_suffix s =
     (case create_snapshot w (trace s) volname snapshot_suffix of
        None \<Rightarrow> (Inl PureError, emit (CreateSnapshot volname snapshot_suffix) s)
      | Some snapshot_id \<Rightarrow> (Inr snapshot_id, emit (CreateSnapshot volname snapshot_suffix) s))"

text \<open>Lines 152 and 153: \<^verbatim>\<open>found = str(key.get("serial")).lower() in serialnumber\<close>.\<close>

definition found :: "dict \<Rightarrow> string \<Rightarrow> bool" where
  "found key serialnumber = py_in (py_lower (py_str (dict_get key ''serial''))) serialnumber"

text \<open>
  The loop of lines 150 to 157. When it runs off the end of the list the function ends
  without a \<^verbatim>\<open>return\<close>, so its value is None.
\<close>

fun scan_volumes :: "world \<Rightarrow> dict list \<Rightarrow> string \<Rightarrow> string \<Rightarrow> pyval prog" where
  "scan_volumes w [] serialnumber snapshot_suffix = ret PNone"
| "scan_volumes w (key # rest) serialnumber snapshot_suffix =
     (if found key serialnumber then
        andthen (array_create_snapshot w (dict_get key ''name'') snapshot_suffix) (\<lambda>snapshot_id.
        ret (PStr (py_str (dict_get snapshot_id ''serial''))))
      else scan_volumes w rest serialnumber snapshot_suffix)"

definition create_flasharray_volume_snapshot :: "world \<Rightarrow> string \<Rightarrow> string \<Rightarrow> pyval prog" where
  "create_flasharray_volume_snapshot w serialnumber snapshot_suffix =
     andthen (array_connect w) (\<lambda>_.
     andthen (array_list_volumes w) (\<lambda>volumes.
     scan_volumes w volumes serialnumber snapshot_suffix))"

section \<open>Opening and closing the backup marker (lines 160 to 196)\<close>

text \<open>
  Line 163 is a complete assignment statement: the line ends after the string literal,
  with no backslash and no open bracket. Line 164, \<^verbatim>\<open>+ dt_string +"';"\<close>, is therefore
  an expression statement of its own, and its first operation is unary plus applied to a
  \<^verbatim>\<open>str\<close>. The same holds for lines 178/179 and 189/190. The statement variables are
  the strings that the assignments of lines 163, 178 and 189 give them.
\<close>

definition hdbPrepareStorageSnapshot :: string where
  "hdbPrepareStorageSnapshot = ''BACKUP DATA FOR FULL SYSTEM CREATE SNAPSHOT COMMENT 'SNAPSHOT-''"

definition hdbRetrieveStorageSnapshotID :: "string \<Rightarrow> string" where
  "hdbRetrieveStorageSnapshotID dt_string =
     ''SELECT BACKUP_ID, COMMENT FROM M_BACKUP_CATALOG WHERE         ENTRY_TYPE_NAME = 'data snapshot' AND STATE_NAME = 'prepared' AND COMMENT = 'SNAPSHOT-''
       @ dt_string @ ''';''"

text \<open>
  Line 173, \<^verbatim>\<open>saphana_snapshot_id[0].column_values[0]\<close>. The local variable is bound
  only in the multi-tenant branch (line 170); reading it unbound raises UnboundLocalError.
\<close>

definition snapshot_id_l173 :: "row list option option \<Rightarrow> exn + pyval" where
  "snapshot_id_l173 saphana_snapshot_id =
     (case saphana_snapshot_id of
        None \<Rightarrow> Inl UnboundLocalError
      | Some r \<Rightarrow> (case first_row r of Inl e \<Rightarrow> Inl e | Inr r0 \<Rightarrow> index r0 0))"

text \<open>Lines 165 to 174: the statements of the function after line 164.\<close>

definition prepare_l165 :: "world \<Rightarrow> string \<Rightarrow> pyval prog" where
  "prepare_l165 w dt_string =
     andthen (check_saphana_system_type w) (\<lambda>multidb.
     andthen
       (if multidb then
          andthen (execute_saphana_command w hdbPrepareStorageSnapshot (PInt 13)) (\<lambda>_.
          andthen (execute_saphana_command w (hdbRetrieveStorageSnapshotID dt_string) (PInt 13))
            (\<lambda>saphana_snapshot_id. ret (Some saphana_snapshot_id)))
        else
          andthen (execute_saphana_command w hdbPrepareStorageSnapshot (PStr port)) (\<lambda>_.
          ret None))
       (\<lambda>saphana_snapshot_id. lift (snapshot_id_l173 saphana_snapshot_id)))"

definition prepare_saphana_storage_snapshot :: "world \<Rightarrow> pyval prog" where
  "prepare_saphana_storage_snapshot w s =
     (let dt_string = now_dt_string w (trace s) in
      andthen (lift (then_add (py_pos (PStr dt_string)) (PStr ''';'')))
        (\<lambda>_. prepare_l165 w dt_string) s)"

definition hdbConfirmStorageSnapshot :: string where
  "hdbConfirmStorageSnapshot = ''BACKUP DATA FOR FULL SYSTEM CLOSE SNAPSHOT BACKUP_ID ''"

text \<open>Lines 180 to 185.\<close>

definition confirm_l180 :: "world \<Rightarrow> unit prog" where
  "confirm_l180 w =
     andthen (check_saphana_system_type w) (\<lambda>multidb.
     if multidb then
       andthen (execute_saphana_command w hdbConfirmStorageSnapshot (PInt 13)) (\<lambda>_. ret ())
     else
       andthen (execute_saphana_command w hdbConfirmStorageSnapshot (PStr port)) (\<lambda>_. ret ()))"

definition confirm_saphana_storage_snapshot :: "world \<Rightarrow> pyval \<Rightarrow> pyval \<Rightarrow> unit prog" where
  "confirm_saphana_storage_snapshot w BackupID EBID =
     andthen
       (lift (then_add (then_add (then_add (then_add
                (py_pos (PStr (py_str BackupID)))
                (PStr ('' SUCCESSFUL '' @ [CHR 0x27])))
                (PStr ''FlashArray Snapshot ID :''))
                (PStr (py_str EBID)))
                (PStr ''';'')))
       (\<lambda>_. confirm_l180 w)"

definition hdbAbandonStorageSnapshot :: string where
  "hdbAbandonStorageSnapshot = ''BACKUP DATA FOR FULL SYSTEM CLOSE SNAPSHOT BACKUP_ID ''"

text \<open>Lines 191 to 196.\<close>

definition abandon_l191 :: "world \<Rightarrow> unit prog" where
  "abandon_l191 w =
     andthen (check_saphana_system_type w) (\<lambda>multidb.
     if multidb then
       andthen (execute_saphana_command w hdbAbandonStorageSnapshot (PInt 13)) (\<lambda>_. ret ())
     else
       andthen (execute_saphana_command w hdbAbandonStorageSnapshot (PStr port)) (\<lambda>_. ret ()))"

definition abandon_saphana_storage_snapshot :: "world \<Rightarrow> pyval \<Rightarrow> pyval \<Rightarrow> unit prog" where
  "abandon_saphana_storage_snapshot w BackupID EBID =
     andthen
       (lift (then_add (then_add (then_add
                (py_pos (PStr (py_str BackupID)))
                (PStr ('' UNSUCCESSFUL '' @ [CHR 0x27])))
                (PStr (py_str EBID)))
                (PStr ''';'')))
       (\<lambda>_. abandon_l191 w)"

section \<open>Topology discovery (lines 198 to 216)\<close>

definition hdbGetNameServerhost :: string where
  "hdbGetNameServerhost =
     ''SELECT HOST FROM SYS.M_SERVICES WHERE DETAIL = 'master' AND SERVICE_NAME = 'nameserver''
       @ [CHR 0x27]"

definition get_saphana_nameserver_host :: "world \<Rightarrow> pyval prog" where
  "get_saphana_nameserver_host w =
     andthen (execute_saphana_command w hdbGetNameServerhost (PStr port)) (\<lambda>nameserver_host.
     andthen (lift (first_row nameserver_host)) (\<lambda>r0.
     lift (index r0 0)))"

definition hdbGetHANADataVolumeAndHosts :: string where
  "hdbGetHANADataVolumeAndHosts =
     ''SELECT HOST, STORAGE_ID, PATH, KEY, VALUE FROM SYS.M_ATTACHED_STORAGES WHERE KEY =     'WWID' AND PATH LIKE (SELECT CONCAT(VALUE,'%') FROM M_INIFILE_CONTENTS WHERE FILE_NAME = 'global.ini' AND SECTION =     'persistence' AND KEY = 'basepath_datavolumes' AND VALUE NOT LIKE '$%')''"

definition set_hostaddress :: "string \<Rightarrow> unit prog" where
  "set_hostaddress h s = (Inr (), s\<lparr>hostaddress := h\<rparr>)"

definition get_saphana_data_volume_and_hosts :: "world \<Rightarrow> (row list option) prog" where
  "get_saphana_data_volume_and_hosts w =
     andthen (check_saphana_system_type w) (\<lambda>multidb.
     if multidb then
       andthen (get_saphana_nameserver_host w) (\<lambda>nameserver_host.
       andthen (lift (py_add_str nameserver_host ''.'')) (\<lambda>a.
       andthen (set_hostaddress (a @ domainname)) (\<lambda>_.
       execute_saphana_command w hdbGetHANADataVolumeAndHosts (PInt 13))))
     else execute_saphana_command w hdbGetHANADataVolumeAndHosts (PStr port))"

section \<open>The workflow (lines 220 to 243)\<close>

text \<open>Lines 228 and 229: the snapshot suffix of a volume.\<close>

definition vol_snap_suffix :: "string \<Rightarrow> string \<Rightarrow> pyval \<Rightarrow> string" where
  "vol_snap_suffix host mount_point_parse saphana_backup_id =
     ''SAPHANA-'' @ host @ ''-'' @ mount_point_parse @ ''-'' @ py_str saphana_backup_id"

text \<open>
  Lines 225 to 230 of one iteration: host and mount point of the row, the freeze, the
  suffix and the progress message.
\<close>

definition iteration_head :: "world \<Rightarrow> pyval \<Rightarrow> row \<Rightarrow> (string \<times> pyval \<times> string) prog" where
  "iteration_head w saphana_backup_id h_v =
     andthen (lift (index h_v 0)) (\<lambda>c0.
     andthen (lift (py_add_str c0 domainname)) (\<lambda>host.
     andthen (lift (index h_v 2)) (\<lambda>mount_point.
     andthen (freeze_filesystem w host mount_point) (\<lambda>_.
     andthen (lift (py_replace_slash mount_point)) (\<lambda>mount_point_parse.
     andthen (py_print (''Creating storage snapshot for mount point : '' @ mount_point_parse
                          @ ''on host : '' @ host)) (\<lambda>_.
     ret (host, mount_point, vol_snap_suffix host mount_point_parse saphana_backup_id)))))))"

text \<open>
  Lines 231 and 232: the serial number is resolved, the snapshot is requested, and its
  serial is appended to \<^verbatim>\<open>volume_snapshot_id\<close>. A None from
  \<^verbatim>\<open>create_flasharray_volume_snapshot\<close> cannot be concatenated to a \<^verbatim>\<open>str\<close>.
\<close>

definition snapshot_step :: "world \<Rightarrow> string \<Rightarrow> pyval \<Rightarrow> string \<Rightarrow> string \<Rightarrow> string prog" where
  "snapshot_step w host mount_point suffix volume_snapshot_id =
     andthen (get_volume_serialno w host mount_point) (\<lambda>serialnumber.
     andthen (create_flasharray_volume_snapshot w serialnumber suffix) (\<lambda>snapserial.
     lift (py_str_add (volume_snapshot_id @ ''-'' @ suffix @ ''-'') snapserial)))"

definition loop_body :: "world \<Rightarrow> pyval \<Rightarrow> row \<Rightarrow> string \<Rightarrow> string prog" where
  "loop_body w saphana_backup_id h_v volume_snapshot_id =
     andthen (iteration_head w saphana_backup_id h_v) (\<lambda>(host, mount_point, suffix).
     andthen (snapshot_step w host mount_point suffix volume_snapshot_id) (\<lambda>v.
     andthen (unfreeze_filesystem w host mount_point) (\<lambda>_.
     ret v)))"

fun per_volume_loop :: "world \<Rightarrow> pyval \<Rightarrow> row list \<Rightarrow> string \<Rightarrow> string prog" where
  "per_volume_loop w saphana_backup_id [] volume_snapshot_id = ret volume_snapshot_id"
| "per_volume_loop w saphana_backup_id (h_v # rest) volume_snapshot_id =
     andthen (loop_body w saphana_backup_id h_v volume_snapshot_id)
       (per_volume_loop w saphana_backup_id rest)"

text \<open>
  Lines 223 to 239, entered with the values that lines 221 and 222 returned. Iterating over
  None (a statement without result set) raises TypeError.
\<close>

definition try_body_l223 :: "world \<Rightarrow> row list option \<Rightarrow> pyval \<Rightarrow> unit prog" where
  "try_body_l223 w hosts_and_vols saphana_backup_id =
     andthen
       (case hosts_and_vols of
          None \<Rightarrow> raise TypeError
        | Some rows \<Rightarrow> per_volume_loop w saphana_backup_id rows [])
       (\<lambda>volume_snapshot_id.
          if saphana_backup_id \<noteq> PNone \<and> PStr volume_snapshot_id \<noteq> PNone then
            andthen (py_print (''Confirming storage snapshot with SAP HANA Backup ID : ''
                                 @ py_str saphana_backup_id)) (\<lambda>_.
            confirm_saphana_storage_snapshot w saphana_backup_id (PStr volume_snapshot_id))
          else
            andthen (py_print (''Abandoning storage snapshot with SAP HANA Backup ID : ''
                                 @ py_str saphana_backup_id)) (\<lambda>_.
            abandon_saphana_storage_snapshot w saphana_backup_id (PStr ''no_value'')))"

text \<open>
  Lines 240 to 243. The handler reads the global \<^verbatim>\<open>saphana_backup_id\<close>; when line 222
  never assigned it, the read raises NameError inside the handler.
\<close>

definition except_handler :: "world \<Rightarrow> pyval option \<Rightarrow> unit prog" where
  "except_handler w saphana_backup_id =
     (case saphana_backup_id of
        None \<Rightarrow> raise NameError
      | Some b \<Rightarrow>
          if b \<noteq> PNone then
            andthen (py_print (''Abandoning storage snapshot with SAP HANA Backup ID : ''
                                 @ py_str b)) (\<lambda>_.
            abandon_saphana_storage_snapshot w b (PStr ''no_value''))
          else ret ())"

definition try_except :: "'a prog \<Rightarrow> 'a prog \<Rightarrow> 'a prog" where
  "try_except body handler s =
     (case body s of (Inl e, s1) \<Rightarrow> handler s1 | (Inr x, s1) \<Rightarrow> (Inr x, s1))"

text \<open>The workflow from line 223 on, inside the \<^verbatim>\<open>try\<close>, with its handler.\<close>

definition workflow_l223 :: "world \<Rightarrow> row list option \<Rightarrow> pyval \<Rightarrow> unit prog" where
  "workflow_l223 w hosts_and_vols saphana_backup_id =
     try_except (try_body_l223 w hosts_and_vols saphana_backup_id)
       (except_handler w (Some saphana_backup_id))"

text \<open>The whole script: the result is \<open>Inl e\<close> when the process ends by the uncaught \<open>e\<close>.\<close>

definition main :: "world \<Rightarrow> unit prog" where
  "main w s =
     (case get_saphana_data_volume_and_hosts w s of
        (Inl e, s1) \<Rightarrow> except_handler w None s1
      | (Inr hosts_and_vols, s1) \<Rightarrow>
          (case prepare_saphana_storage_snapshot w s1 of
             (Inl e, s2) \<Rightarrow> except_handler w None s2
           | (Inr saphana_backup_id, s2) \<Rightarrow> workflow_l223 w hosts_and_vols saphana_backup_id s2))"

section \<open>Observations on a trace\<close>

text \<open>The ports of the database connections opened and of the statements executed.\<close>

fun db_ports :: "event list \<Rightarrow> string list" where
  "db_ports [] = []"
| "db_ports (DbConnect a p # evs) = p # db_ports evs"
| "db_ports (DbExecute a p c # evs) = p # db_ports evs"
| "db_ports (e # evs) = db_ports evs"

text \<open>The SQL statements executed, in order.\<close>

fun db_statements :: "event list \<Rightarrow> string list" where
  "db_statements [] = []"
| "db_statements (DbExecute a p c # evs) = c # db_statements evs"
| "db_statements (e # evs) = db_statements evs"


text \<open>
  The events of the per-volume loop: SSH sessions and remote commands, calls to the
  array, and the progress message of line 230.
\<close>

fun loop_event :: "event \<Rightarrow> bool" where
  "loop_event (DbConnect a p) = False"
| "loop_event (DbExecute a p c) = False"
| "loop_event (Print msg) = starts_with ''Creating storage snapshot for mount point : '' msg"
| "loop_event e = True"

text \<open>
  How often the freeze (unfreeze) command of \<^verbatim>\<open>freeze_filesystem(host, mount)\<close>
  (\<^verbatim>\<open>unfreeze_filesystem\<close>) was run on a host for a mount path.
\<close>

definition freeze_calls :: "string \<Rightarrow> string \<Rightarrow> event list \<Rightarrow> nat" where
  "freeze_calls host mount evs = count_list evs (SshExec host (freeze_command mount))"

definition unfreeze_calls :: "string \<Rightarrow> string \<Rightarrow> event list \<Rightarrow> nat" where
  "unfreeze_calls host mount evs = count_list evs (SshExec host (unfreeze_command mount))"

text \<open>A remote command that runs \<^verbatim>\<open>/sbin/fsfreeze\<close>.\<close>

fun fsfreeze_event :: "event \<Rightarrow> bool" where
  "fsfreeze_event (SshExec h c) = starts_with ''/sbin/fsfreeze'' c"
| "fsfreeze_event e = False"

text \<open>
  The host and mount path that lines 225 to 227 pass to \<^verbatim>\<open>freeze_filesystem\<close> for a
  row (the mount path as \<^verbatim>\<open>str\<close> renders it), when the row has them.
\<close>

definition row_host_mount :: "row \<Rightarrow> (string \<times> string) option" where
  "row_host_mount h_v =
     (case index h_v 0 of
        Inr (PStr c0) \<Rightarrow>
          (case index h_v 2 of Inr mount_point \<Rightarrow> Some (c0 @ domainname, py_str mount_point)
           | Inl e \<Rightarrow> None)
      | _ \<Rightarrow> None)"

text \<open>
  The match of the specification's storage snapshot adapter: the volume's reported serial
  occurs in the supplied serial, compared without regard to case.
\<close>

definition ci_match :: "string \<Rightarrow> string \<Rightarrow> bool" where
  "ci_match volserial serialnumber = py_in (py_lower volserial) (py_lower serialnumber)"

section \<open>Example worlds\<close>

text \<open>
  The library's text functions on ASCII output: \<^verbatim>\<open>str\<close> of a list of lines (each line
  as \<^verbatim>\<open>repr\<close> shows it: in double quotes when it holds a single quote and no double
  quote, in single quotes otherwise, with backslash, the enclosing quote, newline,
  carriage return, tab and the other control characters escaped), the search for the
  device path with the pattern of line 120, and a split at every occurrence of one
  character.
\<close>

definition hex_digit :: "nat \<Rightarrow> char" where
  "hex_digit n = ''0123456789abcdef'' ! n"

definition repr_char :: "char \<Rightarrow> char \<Rightarrow> string" where
  "repr_char q c =
     (let n = (of_char c :: nat) in
      if c = CHR 0x5C then [CHR 0x5C, CHR 0x5C]
      else if c = q then [CHR 0x5C, q]
      else if c = CHR 0x0A then [CHR 0x5C, CHR ''n'']
      else if c = CHR 0x0D then [CHR 0x5C, CHR ''r'']
      else if c = CHR 0x09 then [CHR 0x5C, CHR ''t'']
      else if n < 32 \<or> n = 127
        then [CHR 0x5C, CHR ''x'', hex_digit (n div 16), hex_digit (n mod 16)]
      else [c])"

definition repr_line :: "string \<Rightarrow> string" where
  "repr_line l =
     (let q = (if CHR 0x27 \<in> set l \<and> CHR 0x22 \<notin> set l then CHR 0x22 else CHR 0x27)
      in [q] @ concat (map (repr_char q) l) @ [q])"

fun join_comma :: "string list \<Rightarrow> string" where
  "join_comma [] = []"
| "join_comma [x] = x"
| "join_comma (x # y # r) = x @ '', '' @ join_comma (y # r)"

definition plain_str_of_lines :: "string list \<Rightarrow> string" where
  "plain_str_of_lines ls = ''['' @ join_comma (map repr_line ls) @ '']''"

definition is_space :: "char \<Rightarrow> bool" where
  "is_space c =
     (c \<in> set [CHR '' '', CHR 0x09, CHR 0x0A, CHR 0x0B, CHR 0x0C, CHR 0x0D,
                 CHR 0x1C, CHR 0x1D, CHR 0x1E, CHR 0x1F])"

fun search_device :: "string \<Rightarrow> string option" where
  "search_device [] = None"
| "search_device (c # cs) =
     (if c \<noteq> CHR ''['' \<and> c \<noteq> CHR 0x27 \<and> takeWhile (\<lambda>x. \<not> is_space x) cs \<noteq> []
      then Some (c # takeWhile (\<lambda>x. \<not> is_space x) cs)
      else search_device cs)"

fun split_on :: "char \<Rightarrow> string \<Rightarrow> string list" where
  "split_on c [] = [[]]"
| "split_on c (x # xs) =
     (if x = c then [] # split_on c xs
      else (case split_on c xs of p # ps \<Rightarrow> (x # p) # ps | [] \<Rightarrow> [[x]]))"

text \<open>
  A cluster whose mode query answers multi-tenant or not, whose attached-storage query
  returns the given rows, whose hosts report one multipath device with serial
  \<^verbatim>\<open>3624a9370abc123\<close>, and whose array lists the given volumes and accepts every snapshot
  request. The catalog holds the prepared entry with backup id 42.
\<close>

definition example_world :: "bool \<Rightarrow> row list \<Rightarrow> dict list \<Rightarrow> world" where
  "example_world multi rows vols =
     \<lparr> now_dt_string = (\<lambda>_. ''04/11/2026 12:00:00''),
       db_connect = (\<lambda>_ _ _. True),
       db_execute = (\<lambda>_ _ _ c.
          if c = hdbsqlCheckSAPHANASystemType
            then ResultRows [[PStr (if multi then ''multidb'' else ''singledb'')]]
          else if c = hdbGetNameServerhost then ResultRows [[PStr ''node1'']]
          else if c = hdbGetHANADataVolumeAndHosts then ResultRows rows
          else if c = hdbRetrieveStorageSnapshotID ''04/11/2026 12:00:00''
            then ResultRows [[PInt 42, PStr ''SNAPSHOT-04/11/2026 12:00:00'']]
          else NoResultSet),
       ssh_connect = (\<lambda>_ _. True),
       ssh_exec = (\<lambda>_ _ c.
          if starts_with ''df'' c
            then Some [''/dev/mapper/3624a9370abc123  512G  1G  511G  1% /hana/data/mnt1''
                         @ [CHR 0x0A]]
          else if starts_with ''udevadm'' c
            then Some [''E: DM_SERIAL=3624a9370abc123'' @ [CHR 0x0A]]
          else Some []),
       array_login = (\<lambda>_. True),
       list_volumes = (\<lambda>_. Some vols),
       create_snapshot = (\<lambda>_ _ sfx.
          Some [(''name'', PStr (''hana-data-1.'' @ sfx)), (''serial'', PStr ''SNAP-1'')]),
       str_of_lines = plain_str_of_lines,
       re_search = (\<lambda>p s. if p = device_pattern then search_device s else None),
       re_split = (\<lambda>p s. if p = ''='' then split_on CHR ''='' s
                          else if p = backslash_pattern then split_on (CHR 0x5C) s
                          else [s]) \<rparr>"

definition row_node1 :: row where
  "row_node1 =
     [PStr ''node1'', PInt 2, PStr ''/hana/data/mnt1'', PStr ''WWID'', PStr ''624a9370abc123'']"

definition row_node2 :: row where
  "row_node2 =
     [PStr ''node2'', PInt 3, PStr ''/hana/data/mnt2'', PStr ''WWID'', PStr ''624a9370abc124'']"

definition vol1 :: dict where
  "vol1 = [(''name'', PStr ''hana-data-1''), (''serial'', PStr ''624A9370ABC123'')]"

section \<open>Predicates on the events a program adds\<close>

text \<open>
  \<open>emits_only Q p\<close>: whatever its result, \<open>p\<close> only appends events to the trace, and each
  appended event satisfies \<open>Q\<close>.
\<close>

definition emits_only :: "(event \<Rightarrow> bool) \<Rightarrow> 'a prog \<Rightarrow> bool" where
  "emits_only Q p =
     (\<forall>s r s'. p s = (r, s') \<longrightarrow> (\<exists>evs. trace s' = trace s @ evs \<and> list_all Q evs))"


section \<open>The three marker operations stop at their second statement\<close>

lemma prepare_raises:
  "prepare_saphana_storage_snapshot w s = (Inl TypeError, s)"
  by (simp add: prepare_saphana_storage_snapshot_def andthen_def lift_def then_add_def)

lemma confirm_raises:
  "confirm_saphana_storage_snapshot w BackupID EBID s = (Inl TypeError, s)"
  by (simp add: confirm_saphana_storage_snapshot_def andthen_def lift_def then_add_def)

lemma abandon_raises:
  "abandon_saphana_storage_snapshot w BackupID EBID s = (Inl TypeError, s)"
  by (simp add: abandon_saphana_storage_snapshot_def andthen_def lift_def then_add_def)

lemma except_handler_unbound:
  "except_handler w None s = (Inl NameError, s)"
  by (simp add: except_handler_def raise_def)

text \<open>
  Whatever the outside world answers, the script ends by an uncaught NameError: either
  discovery raises, or line 222 does, and the handler then reads the unassigned
  \<^verbatim>\<open>saphana_backup_id\<close>. Its final state is the one discovery left.
\<close>

lemma main_ends_in_NameError:
  "fst (main w s) = Inl NameError"
  by (simp add: main_def prepare_raises except_handler_unbound split: prod.splits sum.splits)


lemma nat_digits_42: "nat_digits 42 = ''42''"
  by (simp add: nat_digits.simps)


text \<open>So a call of any of the three adds no database event, in any mode.\<close>

lemma marker_operations_issue_no_command:
  "db_ports (new_events s (snd (prepare_saphana_storage_snapshot w s))) = []"
  "db_ports (new_events s (snd (confirm_saphana_storage_snapshot w BackupID EBID s))) = []"
  "db_ports (new_events s (snd (abandon_saphana_storage_snapshot w BackupID EBID s))) = []"
  by (simp_all add: prepare_raises confirm_raises abandon_raises new_events_def)

section \<open>Sequencing\<close>

lemma andthen_Inr:
  "andthen m f s = (Inr y, s') \<Longrightarrow> \<exists>x s1. m s = (Inr x, s1) \<and> f x s1 = (Inr y, s')"
  by (auto simp: andthen_def split: prod.splits sum.splits)

lemma per_volume_loop_append:
  "per_volume_loop w bid (xs @ ys) v s =
     andthen (per_volume_loop w bid xs v) (per_volume_loop w bid ys) s"
  by (induction xs arbitrary: v s) (auto simp: andthen_def ret_def split: prod.splits sum.splits)

section \<open>Which events a program can add\<close>

lemma emits_onlyD:
  "emits_only Q p \<Longrightarrow> p s = (r, s') \<Longrightarrow> \<exists>evs. trace s' = trace s @ evs \<and> list_all Q evs"
  by (simp add: emits_only_def)


lemma emits_only_ret [simp]: "emits_only Q (ret x)"
  by (simp add: emits_only_def ret_def)

lemma emits_only_raise [simp]: "emits_only Q (raise e)"
  by (simp add: emits_only_def raise_def)

lemma emits_only_lift [simp]: "emits_only Q (lift r)"
  by (simp add: emits_only_def lift_def)

lemma emits_only_andthen:
  assumes m: "emits_only Q m" and f: "\<And>x. emits_only Q (f x)"
  shows "emits_only Q (andthen m f)"
  unfolding emits_only_def
proof (intro allI impI)
  fix s r s'
  assume run: "andthen m f s = (r, s')"
  obtain r1 s1 where m1: "m s = (r1, s1)"
    by (cases "m s")
  from emits_onlyD [OF m m1] obtain evs1
    where t1: "trace s1 = trace s @ evs1" and q1: "list_all Q evs1"
    by auto
  show "\<exists>evs. trace s' = trace s @ evs \<and> list_all Q evs"
  proof (cases r1)
    case (Inl e)
    with run m1 have "s' = s1"
      by (simp add: andthen_def)
    with t1 q1 show ?thesis
      by auto
  next
    case (Inr x)
    with run m1 have "f x s1 = (r, s')"
      by (simp add: andthen_def)
    from emits_onlyD [OF f this] obtain evs2
      where "trace s' = trace s1 @ evs2" and "list_all Q evs2"
      by auto
    with t1 q1 have "trace s' = trace s @ (evs1 @ evs2) \<and> list_all Q (evs1 @ evs2)"
      by simp
    then show ?thesis
      by blast
  qed
qed

lemma emits_only_print: "Q (Print msg) \<Longrightarrow> emits_only Q (py_print msg)"
  unfolding emits_only_def py_print_def emit_def
  by (intro allI impI, rule exI [of _ "[Print msg]"]) auto


lemma emits_only_prepare_ssh_connection:
  "Q (SshConnect host) \<Longrightarrow> emits_only Q (prepare_ssh_connection w host)"
  unfolding emits_only_def prepare_ssh_connection_def emit_def
  by (intro allI impI, rule exI [of _ "[SshConnect host]"]) (auto split: if_splits)

lemma emits_only_exec_command:
  "Q (SshExec host cmd) \<Longrightarrow> emits_only Q (exec_command w host cmd)"
  unfolding emits_only_def exec_command_def emit_def
  by (intro allI impI, rule exI [of _ "[SshExec host cmd]"]) (auto split: option.splits)

lemma emits_only_array_connect:
  "Q ArrayLogin \<Longrightarrow> emits_only Q (array_connect w)"
  unfolding emits_only_def array_connect_def emit_def
  by (intro allI impI, rule exI [of _ "[ArrayLogin]"]) (auto split: if_splits)

lemma emits_only_array_list_volumes:
  "Q ListVolumes \<Longrightarrow> emits_only Q (array_list_volumes w)"
  unfolding emits_only_def array_list_volumes_def emit_def
  by (intro allI impI, rule exI [of _ "[ListVolumes]"]) (auto split: option.splits)

lemma emits_only_array_create_snapshot:
  "Q (CreateSnapshot volname sfx) \<Longrightarrow> emits_only Q (array_create_snapshot w volname sfx)"
  unfolding emits_only_def array_create_snapshot_def emit_def
  by (intro allI impI, rule exI [of _ "[CreateSnapshot volname sfx]"]) (auto split: option.splits)


lemma emits_only_freeze_filesystem:
  "Q (SshConnect host) \<Longrightarrow> Q (SshExec host (freeze_command (py_str mount))) \<Longrightarrow>
   emits_only Q (freeze_filesystem w host mount)"
  unfolding freeze_filesystem_def
  by (auto intro!: emits_only_andthen emits_only_prepare_ssh_connection emits_only_exec_command)

lemma emits_only_unfreeze_filesystem:
  "Q (SshConnect host) \<Longrightarrow> Q (SshExec host (unfreeze_command (py_str mount))) \<Longrightarrow>
   emits_only Q (unfreeze_filesystem w host mount)"
  unfolding unfreeze_filesystem_def
  by (auto intro!: emits_only_andthen emits_only_prepare_ssh_connection emits_only_exec_command)

section \<open>Database ports\<close>









section \<open>Freeze and unfreeze commands of one iteration\<close>

lemma freeze_unfreeze_distinct [simp]:
  "freeze_command m \<noteq> unfreeze_command m'" "unfreeze_command m' \<noteq> freeze_command m"
  by (simp_all add: freeze_command_def unfreeze_command_def)

lemma freeze_command_inj [simp]:
  "(freeze_command m = freeze_command m') = (m = m')"
  "(unfreeze_command m = unfreeze_command m') = (m = m')"
  by (simp_all add: freeze_command_def unfreeze_command_def)

lemma freeze_calls_append [simp]:
  "freeze_calls h m (xs @ ys) = freeze_calls h m xs + freeze_calls h m ys"
  "unfreeze_calls h m (xs @ ys) = unfreeze_calls h m xs + unfreeze_calls h m ys"
  by (simp_all add: freeze_calls_def unfreeze_calls_def)

lemma no_fsfreeze_counts:
  assumes "list_all (\<lambda>e. \<not> fsfreeze_event e) evs"
  shows "freeze_calls h m evs = 0" and "unfreeze_calls h m evs = 0"
proof -
  have "SshExec h (freeze_command m) \<notin> set evs"
    using assms by (auto simp: list_all_iff freeze_command_def)
  then show "freeze_calls h m evs = 0"
    by (simp add: freeze_calls_def)
  have "SshExec h (unfreeze_command m) \<notin> set evs"
    using assms by (auto simp: list_all_iff unfreeze_command_def)
  then show "unfreeze_calls h m evs = 0"
    by (simp add: unfreeze_calls_def)
qed

lemma quiet_get_volume_serialno:
  "emits_only (\<lambda>e. \<not> fsfreeze_event e) (get_volume_serialno w host mount)"
  unfolding get_volume_serialno_def
  by (auto intro!: emits_only_andthen emits_only_prepare_ssh_connection emits_only_exec_command
      split: option.splits list.splits)

lemma quiet_scan_volumes:
  "emits_only (\<lambda>e. \<not> fsfreeze_event e) (scan_volumes w volumes serialnumber sfx)"
  by (induction volumes)
     (auto intro!: emits_only_andthen emits_only_array_create_snapshot)

lemma quiet_snapshot_step:
  "emits_only (\<lambda>e. \<not> fsfreeze_event e) (snapshot_step w host mount sfx v)"
  unfolding snapshot_step_def create_flasharray_volume_snapshot_def
  by (auto intro!: emits_only_andthen quiet_get_volume_serialno emits_only_array_connect
      emits_only_array_list_volumes quiet_scan_volumes)

lemma freeze_filesystem_Inr:
  "freeze_filesystem w host mount s = (Inr u, s') \<Longrightarrow>
   trace s' = trace s @ [SshConnect host, SshExec host (freeze_command (py_str mount))]"
  by (auto simp: freeze_filesystem_def andthen_def prepare_ssh_connection_def exec_command_def
      ret_def emit_def split: if_splits option.splits)

lemma unfreeze_filesystem_Inr:
  "unfreeze_filesystem w host mount s = (Inr u, s') \<Longrightarrow>
   trace s' = trace s @ [SshConnect host, SshExec host (unfreeze_command (py_str mount))]"
  by (auto simp: unfreeze_filesystem_def andthen_def prepare_ssh_connection_def exec_command_def
      ret_def emit_def split: if_splits option.splits)

lemma py_add_str_Inr: "py_add_str c b = Inr h \<Longrightarrow> \<exists>a. c = PStr a \<and> h = a @ b"
  by (cases c) auto

lemma iteration_head_Inr:
  assumes "iteration_head w bid h_v s = (Inr (host, mount, sfx), s1)"
  shows "row_host_mount h_v = Some (host, py_str mount)
       \<and> (\<exists>msg. trace s1 = trace s @ [SshConnect host,
                     SshExec host (freeze_command (py_str mount)), Print msg])"
  using assms
  by (auto simp: iteration_head_def andthen_def lift_def ret_def py_print_def emit_def
      row_host_mount_def dest!: freeze_filesystem_Inr py_add_str_Inr
      split: sum.splits prod.splits)

lemma loop_body_Inr:
  assumes run: "loop_body w bid h_v v0 s = (Inr v, s')"
  shows "\<exists>evs. trace s' = trace s @ evs
           \<and> freeze_calls h m evs = (if row_host_mount h_v = Some (h, m) then 1 else 0)
           \<and> unfreeze_calls h m evs = (if row_host_mount h_v = Some (h, m) then 1 else 0)"
proof -
  from andthen_Inr [OF run [unfolded loop_body_def]] obtain host mount sfx s1
    where hd: "iteration_head w bid h_v s = (Inr (host, mount, sfx), s1)"
      and r1: "andthen (snapshot_step w host mount sfx v0) (\<lambda>v.
                 andthen (unfreeze_filesystem w host mount) (\<lambda>_. ret v)) s1 = (Inr v, s')"
    by auto
  from andthen_Inr [OF r1] obtain v1 s2
    where sn: "snapshot_step w host mount sfx v0 s1 = (Inr v1, s2)"
      and r2: "andthen (unfreeze_filesystem w host mount) (\<lambda>_. ret v1) s2 = (Inr v, s')"
    by auto
  from andthen_Inr [OF r2] obtain u where un: "unfreeze_filesystem w host mount s2 = (Inr u, s')"
    by (auto simp: ret_def)
  from iteration_head_Inr [OF hd] obtain msg
    where key: "row_host_mount h_v = Some (host, py_str mount)"
      and t1: "trace s1 = trace s @ [SshConnect host,
                 SshExec host (freeze_command (py_str mount)), Print msg]"
    by auto
  from emits_onlyD [OF quiet_snapshot_step sn] obtain evs
    where t2: "trace s2 = trace s1 @ evs" and q: "list_all (\<lambda>e. \<not> fsfreeze_event e) evs"
    by auto
  have t3: "trace s' = trace s2 @ [SshConnect host, SshExec host (unfreeze_command (py_str mount))]"
    by (rule unfreeze_filesystem_Inr [OF un])
  let ?all = "[SshConnect host, SshExec host (freeze_command (py_str mount)), Print msg] @ evs
                @ [SshConnect host, SshExec host (unfreeze_command (py_str mount))]"
  have "trace s' = trace s @ ?all"
    using t1 t2 t3 by simp
  moreover have "freeze_calls h m ?all = (if row_host_mount h_v = Some (h, m) then 1 else 0)"
    using no_fsfreeze_counts(1) [OF q, of h m] key
    by (auto simp: freeze_calls_def)
  moreover have "unfreeze_calls h m ?all = (if row_host_mount h_v = Some (h, m) then 1 else 0)"
    using no_fsfreeze_counts(2) [OF q, of h m] key
    by (auto simp: unfreeze_calls_def)
  ultimately show ?thesis
    by blast
qed

lemma per_volume_loop_Inr:
  "per_volume_loop w bid rows v0 s = (Inr v, s') \<Longrightarrow>
   \<exists>evs. trace s' = trace s @ evs
      \<and> freeze_calls h m evs = count_list (map row_host_mount rows) (Some (h, m))
      \<and> unfreeze_calls h m evs = count_list (map row_host_mount rows) (Some (h, m))"
proof (induction rows arbitrary: v0 s)
  case Nil
  then show ?case
    by (simp add: ret_def freeze_calls_def unfreeze_calls_def)
next
  case (Cons h_v rest)
  from andthen_Inr [OF Cons.prems [simplified]] obtain v1 s1
    where body: "loop_body w bid h_v v0 s = (Inr v1, s1)"
      and tail: "per_volume_loop w bid rest v1 s1 = (Inr v, s')"
    by auto
  from loop_body_Inr [OF body, of h m] obtain evs1
    where b: "trace s1 = trace s @ evs1"
      "freeze_calls h m evs1 = (if row_host_mount h_v = Some (h, m) then 1 else 0)"
      "unfreeze_calls h m evs1 = (if row_host_mount h_v = Some (h, m) then 1 else 0)"
    by auto
  from Cons.IH [OF tail] obtain evs2
    where t: "trace s' = trace s1 @ evs2"
      "freeze_calls h m evs2 = count_list (map row_host_mount rest) (Some (h, m))"
      "unfreeze_calls h m evs2 = count_list (map row_host_mount rest) (Some (h, m))"
    by auto
  have "trace s' = trace s @ (evs1 @ evs2)"
    using b(1) t(1) by simp
  moreover have "freeze_calls h m (evs1 @ evs2)
      = count_list (map row_host_mount (h_v # rest)) (Some (h, m))"
    using b(2) t(2) by simp
  moreover have "unfreeze_calls h m (evs1 @ evs2)
      = count_list (map row_host_mount (h_v # rest)) (Some (h, m))"
    using b(3) t(3) by simp
  ultimately show ?case
    by blast
qed

section \<open>The events of the per-volume loop\<close>

lemma loop_event_get_volume_serialno:
  "emits_only loop_event (get_volume_serialno w host mount)"
  unfolding get_volume_serialno_def
  by (auto intro!: emits_only_andthen emits_only_prepare_ssh_connection emits_only_exec_command
      split: option.splits list.splits)

lemma loop_event_scan_volumes:
  "emits_only loop_event (scan_volumes w volumes serialnumber sfx)"
  by (induction volumes)
     (auto intro!: emits_only_andthen emits_only_array_create_snapshot)

lemma loop_event_snapshot_step:
  "emits_only loop_event (snapshot_step w host mount sfx v)"
  unfolding snapshot_step_def create_flasharray_volume_snapshot_def
  by (auto intro!: emits_only_andthen loop_event_get_volume_serialno emits_only_array_connect
      emits_only_array_list_volumes loop_event_scan_volumes)

lemma loop_event_loop_body:
  "emits_only loop_event (loop_body w bid h_v v)"
  unfolding loop_body_def iteration_head_def
  by (auto intro!: emits_only_andthen emits_only_freeze_filesystem emits_only_unfreeze_filesystem
      emits_only_print loop_event_snapshot_step)

lemma loop_event_per_volume_loop:
  "emits_only loop_event (per_volume_loop w bid rows v)"
  by (induction rows arbitrary: v) (auto intro!: emits_only_andthen loop_event_loop_body)

section \<open>The scan of the array's volumes\<close>

lemma found_ci_match:
  "py_lower serialnumber = serialnumber \<Longrightarrow>
   found key serialnumber = ci_match (py_str (dict_get key ''serial'')) serialnumber"
  by (simp add: found_def ci_match_def)

lemma scan_volumes_find:
  "scan_volumes w volumes serialnumber sfx s =
     (case find (\<lambda>key. found key serialnumber) volumes of
        None \<Rightarrow> (Inr PNone, s)
      | Some key \<Rightarrow>
          (case create_snapshot w (trace s) (dict_get key ''name'') sfx of
             None \<Rightarrow> (Inl PureError, emit (CreateSnapshot (dict_get key ''name'') sfx) s)
           | Some snapshot_id \<Rightarrow>
               (Inr (PStr (py_str (dict_get snapshot_id ''serial''))),
                emit (CreateSnapshot (dict_get key ''name'') sfx) s)))"
  by (induction volumes)
     (auto simp: ret_def andthen_def array_create_snapshot_def split: option.splits)

section \<open>Splitting a text at the first occurrence of a character\<close>

lemma takeWhile_until_first:
  "x \<notin> set xs \<Longrightarrow> takeWhile (\<lambda>c. c \<noteq> x) (xs @ x # ys) = xs"
  by (induction xs) auto

lemma split_at_first_occurrence:
  assumes "x \<notin> set xs" and "x \<notin> set xs'"
  shows "(xs @ x # ys = xs' @ x # ys') = (xs = xs' \<and> ys = ys')"
proof
  assume eq: "xs @ x # ys = xs' @ x # ys'"
  have "takeWhile (\<lambda>c. c \<noteq> x) (xs @ x # ys) = xs"
    using assms(1) by (rule takeWhile_until_first)
  moreover have "takeWhile (\<lambda>c. c \<noteq> x) (xs' @ x # ys') = xs'"
    using assms(2) by (rule takeWhile_until_first)
  ultimately have "xs = xs'"
    using eq by simp
  with eq show "xs = xs' \<and> ys = ys'"
    by simp
next
  assume "xs = xs' \<and> ys = ys'"
  then show "xs @ x # ys = xs' @ x # ys'"
    by simp
qed

lemma split_at_last_occurrence:
  assumes "x \<notin> set ys" and "x \<notin> set ys'"
  shows "(xs @ x # ys = xs' @ x # ys') = (xs = xs' \<and> ys = ys')"
proof
  assume "xs @ x # ys = xs' @ x # ys'"
  then have "rev (xs @ x # ys) = rev (xs' @ x # ys')"
    by (rule arg_cong)
  then have eq: "rev ys @ x # rev xs = rev ys' @ x # rev xs'"
    by simp
  have "x \<notin> set (rev ys)" and "x \<notin> set (rev ys')"
    using assms by simp_all
  then have "(rev ys @ x # rev xs = rev ys' @ x # rev xs')
      = (rev ys = rev ys' \<and> rev xs = rev xs')"
    by (rule split_at_first_occurrence)
  with eq have "rev ys = rev ys' \<and> rev xs = rev xs'"
    by blast
  then show "xs = xs' \<and> ys = ys'"
    by simp
next
  assume "xs = xs' \<and> ys = ys'"
  then show "xs @ x # ys = xs' @ x # ys'"
    by simp
qed

lemma iteration_head_suffix:
  "iteration_head w bid h_v s = (Inr (host, mount, sfx), s1) \<Longrightarrow>
   sfx = vol_snap_suffix host (sanitize (py_str mount)) bid"
  by (auto simp: iteration_head_def andthen_def lift_def ret_def py_print_def
      split: sum.splits prod.splits elim!: py_replace_slash.elims)

section \<open>Claims\<close>

subsection \<open>C2: freeze and unfreeze are paired\<close>

text \<open>
  C2, as amended. There is no \<^verbatim>\<open>try\<close>/\<^verbatim>\<open>finally\<close> around the snapshot step. When the
  per-volume loop completes without raising, every (host, mount path) has received as
  many freeze commands as unfreeze commands, namely one of each per row that names it.
  When the serial resolution or the snapshot request of an iteration raises after the
  freeze, the iteration ends with that exception: the freeze command was run once and no
  unfreeze command is run in that iteration.
\<close>

theorem freeze_unfreeze_paired_when_no_step_raises:
  "(per_volume_loop w bid rows v0 s = (Inr v, s') \<longrightarrow>
      freeze_calls h m (new_events s s') = count_list (map row_host_mount rows) (Some (h, m))
    \<and> unfreeze_calls h m (new_events s s') = count_list (map row_host_mount rows) (Some (h, m)))
   \<and> (iteration_head w bid h_v s = (Inr (host, mount, sfx), s1) \<longrightarrow>
      snapshot_step w host mount sfx v0 s1 = (Inl e, s2) \<longrightarrow>
        loop_body w bid h_v v0 s = (Inl e, s2)
      \<and> freeze_calls host (py_str mount) (new_events s s2) = 1
      \<and> unfreeze_calls h m (new_events s s2) = 0)"
proof (intro conjI impI)
  assume "per_volume_loop w bid rows v0 s = (Inr v, s')"
  from per_volume_loop_Inr [OF this, of h m] obtain evs
    where "trace s' = trace s @ evs"
      and "freeze_calls h m evs = count_list (map row_host_mount rows) (Some (h, m))"
      and "unfreeze_calls h m evs = count_list (map row_host_mount rows) (Some (h, m))"
    by auto
  then show "freeze_calls h m (new_events s s') = count_list (map row_host_mount rows) (Some (h, m))"
    and "unfreeze_calls h m (new_events s s') = count_list (map row_host_mount rows) (Some (h, m))"
    by (simp_all add: new_events_def)
next
  assume hd: "iteration_head w bid h_v s = (Inr (host, mount, sfx), s1)"
    and sn: "snapshot_step w host mount sfx v0 s1 = (Inl e, s2)"
  show "loop_body w bid h_v v0 s = (Inl e, s2)"
    using hd sn by (simp add: loop_body_def andthen_def)
  from iteration_head_Inr [OF hd] obtain msg
    where t1: "trace s1 = trace s @ [SshConnect host,
                 SshExec host (freeze_command (py_str mount)), Print msg]"
    by auto
  from emits_onlyD [OF quiet_snapshot_step sn] obtain evs
    where t2: "trace s2 = trace s1 @ evs" and q: "list_all (\<lambda>e. \<not> fsfreeze_event e) evs"
    by auto
  have ne: "new_events s s2 = [SshConnect host, SshExec host (freeze_command (py_str mount)),
              Print msg] @ evs"
    using t1 t2 by (simp add: new_events_def)
  show "freeze_calls host (py_str mount) (new_events s s2) = 1"
    using no_fsfreeze_counts(1) [OF q, of host "py_str mount"]
    by (simp add: ne) (simp add: freeze_calls_def)
  show "unfreeze_calls h m (new_events s s2) = 0"
    using no_fsfreeze_counts(2) [OF q, of h m]
    by (simp add: ne) (simp add: unfreeze_calls_def)
qed

text \<open>
  C2, witness. One volume on an array that lists it: the loop completes, with one freeze
  and one unfreeze for the volume. The same volume on an array that lists nothing: the
  snapshot step raises after the freeze, and the iteration ends without unfreeze.
\<close>

theorem freeze_unfreeze_paired_when_no_step_raises_witness:
  "per_volume_loop (example_world True [row_node1] [vol1]) (PInt 42) [row_node1] [] initial_state
     = (Inr ''-SAPHANA-node1puredoes.local-hanadatamnt1-42-SNAP-1'',
        snd (per_volume_loop (example_world True [row_node1] [vol1]) (PInt 42) [row_node1] [] initial_state))
   \<and> freeze_calls ''node1puredoes.local'' ''/hana/data/mnt1''
       (new_events initial_state
          (snd (per_volume_loop (example_world True [row_node1] [vol1]) (PInt 42) [row_node1] []
                  initial_state))) = 1
   \<and> unfreeze_calls ''node1puredoes.local'' ''/hana/data/mnt1''
       (new_events initial_state
          (snd (per_volume_loop (example_world True [row_node1] [vol1]) (PInt 42) [row_node1] []
                  initial_state))) = 1
   \<and> iteration_head (example_world True [row_node1] []) (PInt 42) row_node1 initial_state
     = (Inr (''node1puredoes.local'', PStr ''/hana/data/mnt1'',
             ''SAPHANA-node1puredoes.local-hanadatamnt1-42''),
        snd (iteration_head (example_world True [row_node1] []) (PInt 42) row_node1 initial_state))
   \<and> snapshot_step (example_world True [row_node1] []) ''node1puredoes.local'' (PStr ''/hana/data/mnt1'')
       ''SAPHANA-node1puredoes.local-hanadatamnt1-42'' []
       (snd (iteration_head (example_world True [row_node1] []) (PInt 42) row_node1 initial_state))
     = (Inl TypeError,
        snd (snapshot_step (example_world True [row_node1] []) ''node1puredoes.local''
               (PStr ''/hana/data/mnt1'') ''SAPHANA-node1puredoes.local-hanadatamnt1-42'' []
               (snd (iteration_head (example_world True [row_node1] []) (PInt 42) row_node1 initial_state))))
   \<and> loop_body (example_world True [row_node1] []) (PInt 42) row_node1 [] initial_state
     = (Inl TypeError,
        snd (snapshot_step (example_world True [row_node1] []) ''node1puredoes.local''
               (PStr ''/hana/data/mnt1'') ''SAPHANA-node1puredoes.local-hanadatamnt1-42'' []
               (snd (iteration_head (example_world True [row_node1] []) (PInt 42) row_node1 initial_state))))
   \<and> freeze_calls ''node1puredoes.local'' ''/hana/data/mnt1''
       (new_events initial_state
         (snd (snapshot_step (example_world True [row_node1] []) ''node1puredoes.local''
               (PStr ''/hana/data/mnt1'') ''SAPHANA-node1puredoes.local-hanadatamnt1-42'' []
               (snd (iteration_head (example_world True [row_node1] []) (PInt 42) row_node1
                       initial_state))))) = 1
   \<and> unfreeze_calls ''node1puredoes.local'' ''/hana/data/mnt1''
       (new_events initial_state
         (snd (snapshot_step (example_world True [row_node1] []) ''node1puredoes.local''
               (PStr ''/hana/data/mnt1'') ''SAPHANA-node1puredoes.local-hanadatamnt1-42'' []
               (snd (iteration_head (example_world True [row_node1] []) (PInt 42) row_node1
                       initial_state))))) = 0"
proof -
  have run: "per_volume_loop (example_world True [row_node1] [vol1]) (PInt 42) [row_node1] [] initial_state
     = (Inr ''-SAPHANA-node1puredoes.local-hanadatamnt1-42-SNAP-1'',
        snd (per_volume_loop (example_world True [row_node1] [vol1]) (PInt 42) [row_node1] [] initial_state))"
    by code_simp
  have key: "count_list (map row_host_mount [row_node1])
               (Some (''node1puredoes.local'', ''/hana/data/mnt1'')) = 1"
    by code_simp
  have hd: "iteration_head (example_world True [row_node1] []) (PInt 42) row_node1 initial_state
     = (Inr (''node1puredoes.local'', PStr ''/hana/data/mnt1'',
             ''SAPHANA-node1puredoes.local-hanadatamnt1-42''),
        snd (iteration_head (example_world True [row_node1] []) (PInt 42) row_node1 initial_state))"
    by code_simp
  have sn: "snapshot_step (example_world True [row_node1] []) ''node1puredoes.local'' (PStr ''/hana/data/mnt1'')
       ''SAPHANA-node1puredoes.local-hanadatamnt1-42'' []
       (snd (iteration_head (example_world True [row_node1] []) (PInt 42) row_node1 initial_state))
     = (Inl TypeError,
        snd (snapshot_step (example_world True [row_node1] []) ''node1puredoes.local''
               (PStr ''/hana/data/mnt1'') ''SAPHANA-node1puredoes.local-hanadatamnt1-42'' []
               (snd (iteration_head (example_world True [row_node1] []) (PInt 42) row_node1 initial_state))))"
    by code_simp
  note paired = freeze_unfreeze_paired_when_no_step_raises
    [where h = "''node1puredoes.local''" and m = "''/hana/data/mnt1''"]
  show ?thesis
    using run key hd sn
      paired [THEN conjunct1, rule_format, OF run]
      paired [THEN conjunct2, rule_format, OF hd sn]
    by simp
qed

text \<open>
  C2, counterexample to the claim as stated (unfreeze runs even if the snapshot step
  failed). The array lists no volume, so \<^verbatim>\<open>create_flasharray_volume_snapshot\<close> returns
  None and line 231 raises TypeError: the mount path was frozen once and is never
  unfrozen.
\<close>

theorem unfreeze_skipped_counterexample:
  "fst (per_volume_loop (example_world True [row_node1] []) (PInt 42) [row_node1] [] initial_state)
     = Inl TypeError
   \<and> freeze_calls ''node1puredoes.local'' ''/hana/data/mnt1''
       (trace (snd (per_volume_loop (example_world True [row_node1] []) (PInt 42) [row_node1] []
                      initial_state))) = 1
   \<and> unfreeze_calls ''node1puredoes.local'' ''/hana/data/mnt1''
       (trace (snd (per_volume_loop (example_world True [row_node1] []) (PInt 42) [row_node1] []
                      initial_state))) = 0"
  by code_simp

subsection \<open>C3: a failed snapshot step\<close>

text \<open>
  C3, as amended. A failure of the snapshot step is not captured per volume. When the
  loop has processed some rows and the snapshot step of the next row raises, the loop
  ends there: in the trace, the events up to the failure are followed at once by the
  message of the \<^verbatim>\<open>except\<close> handler, \<^verbatim>\<open>Abandoning storage snapshot with SAP HANA Backup
  ID : \<close> and the id (for a backup id that is not None). No freeze and no unfreeze
  command is run after the failure, for any host and mount path, so the rows after the
  failing one are neither frozen nor unfrozen; and the confirmation message of line 235
  is not printed.
\<close>

theorem snapshot_failure_ends_loop:
  assumes pre: "per_volume_loop w bid pre [] s = (Inr v1, s1)"
    and hd: "iteration_head w bid h_v s1 = (Inr (host, mount, sfx), s2)"
    and sn: "snapshot_step w host mount sfx v1 s2 = (Inl e, s3)"
    and bid: "bid \<noteq> PNone"
  shows "take (Suc (length (new_events s s3)))
           (new_events s (snd (workflow_l223 w (Some (pre @ h_v # rest)) bid s)))
         = new_events s s3
             @ [Print (''Abandoning storage snapshot with SAP HANA Backup ID : '' @ py_str bid)]
       \<and> Print (''Confirming storage snapshot with SAP HANA Backup ID : '' @ py_str bid)
           \<notin> set (new_events s (snd (workflow_l223 w (Some (pre @ h_v # rest)) bid s)))
       \<and> freeze_calls h m (new_events s (snd (workflow_l223 w (Some (pre @ h_v # rest)) bid s)))
           = freeze_calls h m (new_events s s3)
       \<and> unfreeze_calls h m (new_events s (snd (workflow_l223 w (Some (pre @ h_v # rest)) bid s)))
           = unfreeze_calls h m (new_events s s3)"
proof -
  let ?msg = "''Abandoning storage snapshot with SAP HANA Backup ID : '' @ py_str bid"
  let ?run = "workflow_l223 w (Some (pre @ h_v # rest)) bid s"
  have body: "loop_body w bid h_v v1 s1 = (Inl e, s3)"
    using hd sn by (simp add: loop_body_def andthen_def)
  have loop: "per_volume_loop w bid (pre @ h_v # rest) [] s = (Inl e, s3)"
    using pre body by (simp add: per_volume_loop_append andthen_def)
  then have "try_body_l223 w (Some (pre @ h_v # rest)) bid s = (Inl e, s3)"
    by (simp add: try_body_l223_def andthen_def)
  then have fin: "snd ?run = emit (Print ?msg) s3"
    using bid
    by (simp add: workflow_l223_def try_except_def except_handler_def andthen_def py_print_def
        abandon_raises)
  from emits_onlyD [OF loop_event_per_volume_loop loop] obtain evs
    where t: "trace s3 = trace s @ evs" and q: "list_all loop_event evs"
    by auto
  have n1: "new_events s s3 = evs"
    using t by (simp add: new_events_def)
  have n2: "new_events s (snd ?run) = evs @ [Print ?msg]"
    using t fin by (simp add: new_events_def emit_def)
  have "Print (''Confirming storage snapshot with SAP HANA Backup ID : '' @ py_str bid) \<notin> set evs"
    using q by (auto simp: list_all_iff)
  then show ?thesis
    unfolding n1 n2 by (simp add: freeze_calls_def unfreeze_calls_def)
qed

text \<open>
  C3, witness. Two volumes on an array that lists nothing: the snapshot step of the first
  raises after eight events; the ninth event of the run is the handler's message, no
  confirmation message is printed, and the second volume is never unfrozen.
\<close>

theorem snapshot_failure_ends_loop_witness:
  "per_volume_loop (example_world True [row_node1, row_node2] []) (PInt 42) [] [] initial_state
     = (Inr [], initial_state)
   \<and> iteration_head (example_world True [row_node1, row_node2] []) (PInt 42) row_node1 initial_state
     = (Inr (''node1puredoes.local'', PStr ''/hana/data/mnt1'',
             ''SAPHANA-node1puredoes.local-hanadatamnt1-42''),
        snd (iteration_head (example_world True [row_node1, row_node2] []) (PInt 42) row_node1
               initial_state))
   \<and> snapshot_step (example_world True [row_node1, row_node2] []) ''node1puredoes.local''
       (PStr ''/hana/data/mnt1'') ''SAPHANA-node1puredoes.local-hanadatamnt1-42'' []
       (snd (iteration_head (example_world True [row_node1, row_node2] []) (PInt 42) row_node1
               initial_state))
     = (Inl TypeError,
        \<lparr>trace =
           [SshConnect ''node1puredoes.local'',
            SshExec ''node1puredoes.local'' ''/sbin/fsfreeze --freeze/hana/data/mnt1'',
            Print ''Creating storage snapshot for mount point : hanadatamnt1on host : node1puredoes.local'',
            SshConnect ''node1puredoes.local'',
            SshExec ''node1puredoes.local'' ''df -h | grep /hana/data/mnt1'',
            SshExec ''node1puredoes.local''
              ''udevadm info --query=all --name=/dev/mapper/3624a9370abc123 | grep DM_SERIAL'',
            ArrayLogin, ListVolumes],
         hostaddress = ''SHN2.puredoes.local''\<rparr>)
   \<and> PInt 42 \<noteq> PNone
   \<and> take 9 (trace (snd (workflow_l223 (example_world True [row_node1, row_node2] [])
                           (Some ([] @ row_node1 # [row_node2])) (PInt 42) initial_state)))
     = [SshConnect ''node1puredoes.local'',
        SshExec ''node1puredoes.local'' ''/sbin/fsfreeze --freeze/hana/data/mnt1'',
        Print ''Creating storage snapshot for mount point : hanadatamnt1on host : node1puredoes.local'',
        SshConnect ''node1puredoes.local'',
        SshExec ''node1puredoes.local'' ''df -h | grep /hana/data/mnt1'',
        SshExec ''node1puredoes.local''
          ''udevadm info --query=all --name=/dev/mapper/3624a9370abc123 | grep DM_SERIAL'',
        ArrayLogin, ListVolumes,
        Print ''Abandoning storage snapshot with SAP HANA Backup ID : 42'']
   \<and> Print ''Confirming storage snapshot with SAP HANA Backup ID : 42''
       \<notin> set (trace (snd (workflow_l223 (example_world True [row_node1, row_node2] [])
                              (Some ([] @ row_node1 # [row_node2])) (PInt 42) initial_state)))
   \<and> unfreeze_calls ''node2puredoes.local'' ''/hana/data/mnt2''
       (trace (snd (workflow_l223 (example_world True [row_node1, row_node2] [])
                      (Some ([] @ row_node1 # [row_node2])) (PInt 42) initial_state))) = 0"
proof -
  let ?w = "example_world True [row_node1, row_node2] []"
  let ?s3 = "\<lparr>trace =
           [SshConnect ''node1puredoes.local'',
            SshExec ''node1puredoes.local'' ''/sbin/fsfreeze --freeze/hana/data/mnt1'',
            Print ''Creating storage snapshot for mount point : hanadatamnt1on host : node1puredoes.local'',
            SshConnect ''node1puredoes.local'',
            SshExec ''node1puredoes.local'' ''df -h | grep /hana/data/mnt1'',
            SshExec ''node1puredoes.local''
              ''udevadm info --query=all --name=/dev/mapper/3624a9370abc123 | grep DM_SERIAL'',
            ArrayLogin, ListVolumes],
         hostaddress = ''SHN2.puredoes.local''\<rparr>"
  have pre: "per_volume_loop ?w (PInt 42) [] [] initial_state = (Inr [], initial_state)"
    by (simp add: ret_def)
  have hd: "iteration_head ?w (PInt 42) row_node1 initial_state
     = (Inr (''node1puredoes.local'', PStr ''/hana/data/mnt1'',
             ''SAPHANA-node1puredoes.local-hanadatamnt1-42''),
        snd (iteration_head ?w (PInt 42) row_node1 initial_state))"
    by code_simp
  have sn: "snapshot_step ?w ''node1puredoes.local''
       (PStr ''/hana/data/mnt1'') ''SAPHANA-node1puredoes.local-hanadatamnt1-42'' []
       (snd (iteration_head ?w (PInt 42) row_node1 initial_state))
     = (Inl TypeError, ?s3)"
    by code_simp
  have bid: "PInt 42 \<noteq> PNone"
    by simp
  have ne: "new_events initial_state s' = trace s'" for s'
    by (simp add: new_events_def initial_state_def)
  have u: "unfreeze_calls ''node2puredoes.local'' ''/hana/data/mnt2'' (trace ?s3) = 0"
    by (simp add: unfreeze_calls_def)
  have len: "length (trace ?s3) = 8"
    by simp
  note ends = snapshot_failure_ends_loop [OF pre hd sn bid, of "[row_node2]"
      "''node2puredoes.local''" "''/hana/data/mnt2''", unfolded ne len]
  show ?thesis
    using pre hd sn ends u
    by (simp add: nat_digits_42)
qed

text \<open>
  C3, counterexample to the claim as stated (the remaining volumes are still processed
  and unfrozen). With two volumes and a failing snapshot step for the first, the second
  host is never contacted: no SSH session is opened to it and no unfreeze command reaches
  it.
\<close>

theorem remaining_volume_skipped_counterexample:
  "fst (workflow_l223 (example_world True [row_node1, row_node2] []) (Some [row_node1, row_node2]) (PInt 42)
          initial_state) = Inl TypeError
   \<and> SshConnect ''node2puredoes.local''
       \<notin> set (trace (snd (workflow_l223 (example_world True [row_node1, row_node2] [])
                              (Some [row_node1, row_node2]) (PInt 42) initial_state)))
   \<and> unfreeze_calls ''node2puredoes.local'' ''/hana/data/mnt2''
       (trace (snd (workflow_l223 (example_world True [row_node1, row_node2] []) (Some [row_node1, row_node2])
                      (PInt 42) initial_state))) = 0"
  by code_simp

subsection \<open>C4: opening the marker\<close>

text \<open>
  C4. The claim: \<^verbatim>\<open>prepare_saphana_storage_snapshot\<close> issues the create-snapshot command
  with a timestamp comment, looks the prepared entry up in the catalog and returns its
  backup id, in both deployment modes, and fails with a distinct error when the lookup has
  no rows. The code does not: in every world the function raises TypeError at line 164,
  before any database command, so the state is unchanged. Read from line 165 on, the
  function still misses the claim in single-tenant mode: the command text of line 163
  carries no timestamp, no catalog lookup is made, and line 173 raises UnboundLocalError.
\<close>

theorem prepare_issues_no_command:
  "prepare_saphana_storage_snapshot w s = (Inl TypeError, s)
   \<and> fst (prepare_l165 (example_world False [] []) ''04/11/2026 12:00:00'' initial_state)
       = Inl UnboundLocalError
   \<and> db_statements
         (trace (snd (prepare_l165 (example_world False [] []) ''04/11/2026 12:00:00''
                        initial_state)))
       = [hdbsqlCheckSAPHANASystemType,
          ''BACKUP DATA FOR FULL SYSTEM CREATE SNAPSHOT COMMENT 'SNAPSHOT-'']"
proof (intro conjI)
  show "prepare_saphana_storage_snapshot w s = (Inl TypeError, s)"
    by (rule prepare_raises)
  show "fst (prepare_l165 (example_world False [] []) ''04/11/2026 12:00:00'' initial_state)
          = Inl UnboundLocalError"
    by code_simp
  show "db_statements
          (trace (snd (prepare_l165 (example_world False [] []) ''04/11/2026 12:00:00''
                         initial_state)))
        = [hdbsqlCheckSAPHANASystemType,
           ''BACKUP DATA FOR FULL SYSTEM CREATE SNAPSHOT COMMENT 'SNAPSHOT-'']"
    by code_simp
qed

subsection \<open>C5: the storage snapshot adapter\<close>

text \<open>
  C5, as amended. For a supplied serial in lower case, after a successful login and
  listing, \<^verbatim>\<open>create_flasharray_volume_snapshot\<close> takes the first listed volume whose
  reported serial occurs in the supplied serial, compared without regard to case,
  requests a snapshot of that volume with the suffix, and returns \<^verbatim>\<open>str\<close> of the
  snapshot's serial (or raises when the array rejects the request). When no listed volume
  matches it returns None: no error is raised.
\<close>

theorem snapshot_of_first_match:
  "py_lower serialnumber = serialnumber \<Longrightarrow>
   array_login w (trace s) \<Longrightarrow>
   list_volumes w (trace (emit ArrayLogin s)) = Some volumes \<Longrightarrow>
   create_flasharray_volume_snapshot w serialnumber sfx s =
     (let s2 = emit ListVolumes (emit ArrayLogin s) in
      case find (\<lambda>key. ci_match (py_str (dict_get key ''serial'')) serialnumber) volumes of
        None \<Rightarrow> (Inr PNone, s2)
      | Some key \<Rightarrow>
          (case create_snapshot w (trace s2) (dict_get key ''name'') sfx of
             None \<Rightarrow> (Inl PureError, emit (CreateSnapshot (dict_get key ''name'') sfx) s2)
           | Some snapshot_id \<Rightarrow>
               (Inr (PStr (py_str (dict_get snapshot_id ''serial''))),
                emit (CreateSnapshot (dict_get key ''name'') sfx) s2)))"
proof -
  assume lower: "py_lower serialnumber = serialnumber"
    and login: "array_login w (trace s)"
    and vols: "list_volumes w (trace (emit ArrayLogin s)) = Some volumes"
  have same: "(\<lambda>key. found key serialnumber)
                = (\<lambda>key. ci_match (py_str (dict_get key ''serial'')) serialnumber)"
    using lower by (simp add: fun_eq_iff found_ci_match)
  show ?thesis
    using login vols
    by (simp add: create_flasharray_volume_snapshot_def andthen_def array_connect_def
        array_list_volumes_def scan_volumes_find same Let_def)
qed

text \<open>
  C5, witness. The device serial \<^verbatim>\<open>3624a9370abc123\<close> and an array whose volume reports
  the serial \<^verbatim>\<open>624A9370ABC123\<close>: the snapshot is requested and its serial returned.
\<close>

theorem snapshot_of_first_match_witness:
  "py_lower ''3624a9370abc123'' = ''3624a9370abc123''
   \<and> array_login (example_world True [] [vol1]) (trace initial_state)
   \<and> list_volumes (example_world True [] [vol1]) (trace (emit ArrayLogin initial_state)) = Some [vol1]
   \<and> create_flasharray_volume_snapshot (example_world True [] [vol1]) ''3624a9370abc123''
       ''SAPHANA-node1puredoes.local-hanadatamnt1-42'' initial_state
     = (Inr (PStr ''SNAP-1''),
        \<lparr>trace = [ArrayLogin, ListVolumes,
                   CreateSnapshot (PStr ''hana-data-1'')
                     ''SAPHANA-node1puredoes.local-hanadatamnt1-42''],
         hostaddress = ''SHN2.puredoes.local''\<rparr>)"
proof -
  have lower: "py_lower ''3624a9370abc123'' = ''3624a9370abc123''"
    by code_simp
  have login: "array_login (example_world True [] [vol1]) (trace initial_state)"
    by code_simp
  have vols: "list_volumes (example_world True [] [vol1]) (trace (emit ArrayLogin initial_state))
      = Some [vol1]"
    by (simp add: example_world_def)
  have rhs: "(let s2 = emit ListVolumes (emit ArrayLogin initial_state) in
      case find (\<lambda>key. ci_match (py_str (dict_get key ''serial'')) ''3624a9370abc123'') [vol1] of
        None \<Rightarrow> (Inr PNone, s2)
      | Some key \<Rightarrow>
          (case create_snapshot (example_world True [] [vol1]) (trace s2) (dict_get key ''name'')
                  ''SAPHANA-node1puredoes.local-hanadatamnt1-42'' of
             None \<Rightarrow> (Inl PureError,
                       emit (CreateSnapshot (dict_get key ''name'')
                               ''SAPHANA-node1puredoes.local-hanadatamnt1-42'') s2)
           | Some snapshot_id \<Rightarrow>
               (Inr (PStr (py_str (dict_get snapshot_id ''serial''))),
                emit (CreateSnapshot (dict_get key ''name'')
                        ''SAPHANA-node1puredoes.local-hanadatamnt1-42'') s2)))
     = (Inr (PStr ''SNAP-1''),
        \<lparr>trace = [ArrayLogin, ListVolumes,
                   CreateSnapshot (PStr ''hana-data-1'')
                     ''SAPHANA-node1puredoes.local-hanadatamnt1-42''],
         hostaddress = ''SHN2.puredoes.local''\<rparr>)"
    by code_simp
  show ?thesis
    using lower login vols
      snapshot_of_first_match [OF lower login vols,
        of "''SAPHANA-node1puredoes.local-hanadatamnt1-42''"] rhs
    by simp
qed

text \<open>
  C5, counterexample to the claim as stated (a serial that matches no volume fails with
  VolumeNotFoundError; the match is case-insensitive). A serial that matches no listed
  volume gives the result None after login and listing, with no error. So does the
  upper-case serial \<^verbatim>\<open>3624A9370ABC123\<close> against the volume serial \<^verbatim>\<open>624A9370ABC123\<close>,
  because only the volume's serial is lower-cased.
\<close>

theorem no_match_returns_None_counterexample:
  "create_flasharray_volume_snapshot (example_world True [] [vol1]) ''3624a9370abc999'' ''sfx''
       initial_state
     = (Inr PNone, \<lparr>trace = [ArrayLogin, ListVolumes], hostaddress = ''SHN2.puredoes.local''\<rparr>)
   \<and> create_flasharray_volume_snapshot (example_world True [] [vol1]) ''3624A9370ABC123'' ''sfx''
       initial_state
     = (Inr PNone, \<lparr>trace = [ArrayLogin, ListVolumes], hostaddress = ''SHN2.puredoes.local''\<rparr>)"
  by code_simp

subsection \<open>C6: the connection port\<close>




subsection \<open>C7: the snapshot suffix\<close>

text \<open>
  C7, as amended. The suffix that an iteration builds is \<^verbatim>\<open>SAPHANA-\<close>, the host, a dash,
  the mount path with every slash removed, a dash, and \<^verbatim>\<open>str\<close> of the backup id. Under
  one backup id two pairs get the same suffix exactly when the text made of the host, a
  dash and the mount path without its slashes is the same for both. So when neither host
  contains a dash, or neither mount path contains one, two pairs get the same suffix
  exactly when their hosts are equal and their mount paths are equal once the slashes are
  removed.
\<close>

theorem suffix_composition_and_equality:
  "(iteration_head w bid h_v s = (Inr (host, mount, sfx), s1) \<longrightarrow>
      sfx = ''SAPHANA-'' @ host @ ''-'' @ sanitize (py_str mount) @ ''-'' @ py_str bid)
   \<and> vol_snap_suffix host1 (sanitize mount1) b
       = ''SAPHANA-'' @ host1 @ ''-'' @ filter (\<lambda>c. c \<noteq> CHR ''/'') mount1 @ ''-'' @ py_str b
   \<and> (vol_snap_suffix host1 (sanitize mount1) b = vol_snap_suffix host2 (sanitize mount2) b)
       = (host1 @ ''-'' @ sanitize mount1 = host2 @ ''-'' @ sanitize mount2)
   \<and> (CHR ''-'' \<notin> set host1 \<and> CHR ''-'' \<notin> set host2
        \<or> CHR ''-'' \<notin> set (sanitize mount1) \<and> CHR ''-'' \<notin> set (sanitize mount2) \<longrightarrow>
      (vol_snap_suffix host1 (sanitize mount1) b = vol_snap_suffix host2 (sanitize mount2) b)
        = (host1 = host2 \<and> sanitize mount1 = sanitize mount2))"
proof (intro conjI impI)
  assume "iteration_head w bid h_v s = (Inr (host, mount, sfx), s1)"
  from iteration_head_suffix [OF this]
  show "sfx = ''SAPHANA-'' @ host @ ''-'' @ sanitize (py_str mount) @ ''-'' @ py_str bid"
    by (simp add: vol_snap_suffix_def)
next
  show "vol_snap_suffix host1 (sanitize mount1) b
       = ''SAPHANA-'' @ host1 @ ''-'' @ filter (\<lambda>c. c \<noteq> CHR ''/'') mount1 @ ''-'' @ py_str b"
    by (simp add: vol_snap_suffix_def sanitize_def)
next
  show eq: "(vol_snap_suffix host1 (sanitize mount1) b = vol_snap_suffix host2 (sanitize mount2) b)
       = (host1 @ ''-'' @ sanitize mount1 = host2 @ ''-'' @ sanitize mount2)"
    by (simp add: vol_snap_suffix_def)
  assume "CHR ''-'' \<notin> set host1 \<and> CHR ''-'' \<notin> set host2
        \<or> CHR ''-'' \<notin> set (sanitize mount1) \<and> CHR ''-'' \<notin> set (sanitize mount2)"
  then have "(host1 @ CHR ''-'' # sanitize mount1 = host2 @ CHR ''-'' # sanitize mount2)
      = (host1 = host2 \<and> sanitize mount1 = sanitize mount2)"
    using split_at_first_occurrence [of "CHR ''-''" host1 host2 "sanitize mount1" "sanitize mount2"]
      split_at_last_occurrence [of "CHR ''-''" "sanitize mount1" "sanitize mount2" host1 host2]
    by blast
  with eq show "(vol_snap_suffix host1 (sanitize mount1) b
                   = vol_snap_suffix host2 (sanitize mount2) b)
        = (host1 = host2 \<and> sanitize mount1 = sanitize mount2)"
    by simp
qed

text \<open>
  C7, witness. The suffix of the first iteration on the example cluster; two dash-free
  hosts with the same mount path get different suffixes; and so do two dash-free mount
  paths on one host whose name has a dash.
\<close>

theorem suffix_composition_and_equality_witness:
  "iteration_head (example_world True [row_node1] [vol1]) (PInt 42) row_node1 initial_state
     = (Inr (''node1puredoes.local'', PStr ''/hana/data/mnt1'',
             ''SAPHANA-node1puredoes.local-hanadatamnt1-42''),
        snd (iteration_head (example_world True [row_node1] [vol1]) (PInt 42) row_node1
               initial_state))
   \<and> ''SAPHANA-node1puredoes.local-hanadatamnt1-42''
       = ''SAPHANA-'' @ ''node1puredoes.local'' @ ''-'' @ sanitize (py_str (PStr ''/hana/data/mnt1''))
           @ ''-'' @ py_str (PInt 42)
   \<and> CHR ''-'' \<notin> set ''node1puredoes.local'' \<and> CHR ''-'' \<notin> set ''node2puredoes.local''
   \<and> vol_snap_suffix ''node1puredoes.local'' (sanitize ''/hana/data/mnt1'') (PInt 42)
       \<noteq> vol_snap_suffix ''node2puredoes.local'' (sanitize ''/hana/data/mnt1'') (PInt 42)
   \<and> CHR ''-'' \<notin> set (sanitize ''/hana/data/mnt1'') \<and> CHR ''-'' \<notin> set (sanitize ''/hana/log/mnt1'')
   \<and> vol_snap_suffix ''db-1'' (sanitize ''/hana/data/mnt1'') (PInt 42)
       \<noteq> vol_snap_suffix ''db-1'' (sanitize ''/hana/log/mnt1'') (PInt 42)"
proof -
  have hd: "iteration_head (example_world True [row_node1] [vol1]) (PInt 42) row_node1 initial_state
     = (Inr (''node1puredoes.local'', PStr ''/hana/data/mnt1'',
             ''SAPHANA-node1puredoes.local-hanadatamnt1-42''),
        snd (iteration_head (example_world True [row_node1] [vol1]) (PInt 42) row_node1
               initial_state))"
    by code_simp
  have d1: "CHR ''-'' \<notin> set ''node1puredoes.local'' \<and> CHR ''-'' \<notin> set ''node2puredoes.local''
        \<or> CHR ''-'' \<notin> set (sanitize ''/hana/data/mnt1'') \<and> CHR ''-'' \<notin> set (sanitize ''/hana/data/mnt1'')"
    by simp
  have d2: "CHR ''-'' \<notin> set ''db-1'' \<and> CHR ''-'' \<notin> set ''db-1''
        \<or> CHR ''-'' \<notin> set (sanitize ''/hana/data/mnt1'') \<and> CHR ''-'' \<notin> set (sanitize ''/hana/log/mnt1'')"
    by (simp add: sanitize_def)
  note comp = suffix_composition_and_equality [THEN conjunct1, rule_format, OF hd]
  note hosts = suffix_composition_and_equality [THEN conjunct2, THEN conjunct2, THEN conjunct2,
      rule_format, OF d1, of "PInt 42"]
  note mounts = suffix_composition_and_equality [THEN conjunct2, THEN conjunct2, THEN conjunct2,
      rule_format, OF d2, of "PInt 42"]
  show ?thesis
    using hd comp hosts mounts
    by (simp add: sanitize_def)
qed

text \<open>
  C7, counterexample to the claim as stated (distinct pairs get distinct suffixes). Two
  different mount paths on one host, \<^verbatim>\<open>/hana/data/mnt1\<close> and \<^verbatim>\<open>/hana/datamnt/1\<close>, get
  the same suffix under backup id 42, because the slashes are removed. So do the host
  \<^verbatim>\<open>db-1\<close> with \<^verbatim>\<open>/data\<close> and the host \<^verbatim>\<open>db\<close> with \<^verbatim>\<open>/1-data\<close>, because the dash
  also separates host and mount path.
\<close>

theorem suffix_collisions_counterexample:
  "(''node1puredoes.local'', ''/hana/data/mnt1'') \<noteq> (''node1puredoes.local'', ''/hana/datamnt/1'')
   \<and> vol_snap_suffix ''node1puredoes.local'' (sanitize ''/hana/data/mnt1'') (PInt 42)
     = vol_snap_suffix ''node1puredoes.local'' (sanitize ''/hana/datamnt/1'') (PInt 42)
   \<and> (''db-1'', ''/data'') \<noteq> (''db'', ''/1-data'')
   \<and> vol_snap_suffix ''db-1'' (sanitize ''/data'') (PInt 42)
     = vol_snap_suffix ''db'' (sanitize ''/1-data'') (PInt 42)"
  by (simp add: vol_snap_suffix_def sanitize_def)

subsection \<open>C8: a cluster without volumes\<close>

text \<open>
  C8. The claim: when discovery returns zero volumes the run confirms the marker at once,
  without crashing and without leaving the marker open. With an empty row list the loop
  is skipped and line 236 does call \<^verbatim>\<open>confirm_saphana_storage_snapshot\<close>, but that call
  raises TypeError at line 179 before any statement is sent; the handler's call of
  \<^verbatim>\<open>abandon_saphana_storage_snapshot\<close> raises at line 190 in the same way. The run ends by
  that TypeError and has sent nothing to the database. The whole script on a cluster
  without volumes does not even reach line 223: it ends by NameError, and the only
  statements executed are those of discovery.
\<close>

theorem zero_volumes_run_crashes:
  "workflow_l223 w (Some []) (PInt 42) s =
     (Inl TypeError,
      s\<lparr>trace := trace s @
           [Print ''Confirming storage snapshot with SAP HANA Backup ID : 42'',
            Print ''Abandoning storage snapshot with SAP HANA Backup ID : 42'']\<rparr>)
   \<and> fst (main (example_world True [] []) initial_state) = Inl NameError
   \<and> db_statements (trace (snd (main (example_world True [] []) initial_state)))
       = [hdbsqlCheckSAPHANASystemType, hdbGetNameServerhost, hdbGetHANADataVolumeAndHosts]"
proof (intro conjI)
  show "workflow_l223 w (Some []) (PInt 42) s =
     (Inl TypeError,
      s\<lparr>trace := trace s @
           [Print ''Confirming storage snapshot with SAP HANA Backup ID : 42'',
            Print ''Abandoning storage snapshot with SAP HANA Backup ID : 42'']\<rparr>)"
    by (simp add: workflow_l223_def try_except_def try_body_l223_def andthen_def ret_def
        py_print_def emit_def confirm_raises abandon_raises except_handler_def nat_digits_42)
  show "fst (main (example_world True [] []) initial_state) = Inl NameError"
    by (rule main_ends_in_NameError)
  show "db_statements (trace (snd (main (example_world True [] []) initial_state)))
       = [hdbsqlCheckSAPHANASystemType, hdbGetNameServerhost, hdbGetHANADataVolumeAndHosts]"
    by code_simp
qed

subsection \<open>C9: the freeze and unfreeze commands\<close>

text \<open>
  C9. The claim: the remote command names the fsfreeze program, the freeze or unfreeze
  flag, and the mount path as a separate argument. The code concatenates the flag and the
  mount path without a space (lines 135 and 142): for the mount path
  \<^verbatim>\<open>/hana/data/mnt1\<close> the commands run are \<^verbatim>\<open>/sbin/fsfreeze --freeze/hana/data/mnt1\<close>
  and \<^verbatim>\<open>/sbin/fsfreeze --unfreeze/hana/data/mnt1\<close>.
\<close>

theorem freeze_command_has_no_separator:
  "freeze_filesystem (example_world True [] []) ''node1puredoes.local'' (PStr ''/hana/data/mnt1'')
       initial_state
     = (Inr (),
        \<lparr>trace = [SshConnect ''node1puredoes.local'',
                   SshExec ''node1puredoes.local'' ''/sbin/fsfreeze --freeze/hana/data/mnt1''],
         hostaddress = ''SHN2.puredoes.local''\<rparr>)
   \<and> unfreeze_filesystem (example_world True [] []) ''node1puredoes.local''
       (PStr ''/hana/data/mnt1'') initial_state
     = (Inr (),
        \<lparr>trace = [SshConnect ''node1puredoes.local'',
                   SshExec ''node1puredoes.local'' ''/sbin/fsfreeze --unfreeze/hana/data/mnt1''],
         hostaddress = ''SHN2.puredoes.local''\<rparr>)"
  by code_simp

end
